theory Spec2Isabelle
  imports Main "HOL-Library.Sublist" "HOL-Library.Multiset"
begin

chapter \<open>docxml: a shallow embedding of the document model and its packaging\<close>

text \<open>
  The TypeScript sources are embedded function by function. A method that mutates
  \<^verbatim>\<open>this\<close> takes the object and returns it updated; a \<^verbatim>\<open>throw\<close> is the
  value \<open>Inl (Error msg)\<close>; a class is a record of its fields. All definitions come
  first, the theorems follow in the second part.
\<close>

section \<open>JavaScript values\<close>

text \<open>A thrown \<^verbatim>\<open>new Error(message)\<close>.\<close>

datatype error = Error (message: string)

text \<open>
  An optional property \<^verbatim>\<open>p?: T | null\<close> has three states at run time: the key is
  absent (\<^verbatim>\<open>undefined\<close>), it is \<^verbatim>\<open>null\<close>, or it holds a value.
\<close>

datatype 'a optional = Undefined | Null | Value 'a

text \<open>
  \<^verbatim>\<open>v || null\<close> on an optional string: \<^verbatim>\<open>undefined\<close>, \<^verbatim>\<open>null\<close> and the empty
  string are falsy.
\<close>

fun or_null :: "string optional \<Rightarrow> string option" where
  "or_null Undefined = None"
| "or_null Null = None"
| "or_null (Value s) = (if s = [] then None else Some s)"

text \<open>\<^verbatim>\<open>Array.prototype.join(separator)\<close> on an array of strings.\<close>

fun join :: "string \<Rightarrow> string list \<Rightarrow> string" where
  "join sep [] = []"
| "join sep [x] = x"
| "join sep (x # y # ys) = x @ sep @ join sep (y # ys)"

text \<open>A template literal prints a number (here always an array length) in decimal.\<close>

definition digit :: "nat \<Rightarrow> char" where
  "digit d = ''0123456789'' ! d"

function string_of_nat :: "nat \<Rightarrow> string" where
  "string_of_nat n =
     (if n < 10 then [digit n] else string_of_nat (n div 10) @ [digit (n mod 10)])"
  by pat_completeness auto
termination
  by (relation "measure (\<lambda>n. n)") auto

declare string_of_nat.simps [simp del]

section \<open>enums.ts\<close>

text \<open>
  A string enum is its string at run time. \<^verbatim>\<open>FileMime.rels\<close> and
  \<^verbatim>\<open>FileMime.relationships\<close> are the same string. (Docx.ts imports the enum of
  locations under the name \<^verbatim>\<open>BundleFile\<close>.)
\<close>

type_synonym FileMime = string

definition FileLocation_contentTypes :: string where
  "FileLocation_contentTypes = ''[Content_Types].xml''"

definition FileLocation_relationships :: string where
  "FileLocation_relationships = ''_rels/.rels''"

definition FileLocation_mainDocument :: string where
  "FileLocation_mainDocument = ''word/document.xml''"

definition FileLocation_styles :: string where
  "FileLocation_styles = ''word/styles.xml''"

definition FileMime_rels :: FileMime where
  "FileMime_rels = ''application/vnd.openxmlformats-package.relationships+xml''"

definition FileMime_xml :: FileMime where
  "FileMime_xml = ''application/xml''"

definition FileMime_extendedProperties :: FileMime where
  "FileMime_extendedProperties =
     ''application/vnd.openxmlformats-officedocument.extended-properties+xml''"

definition FileMime_fontTable :: FileMime where
  "FileMime_fontTable =
     ''application/vnd.openxmlformats-officedocument.wordprocessingml.fontTable+xml''"

definition FileMime_mainDocument :: FileMime where
  "FileMime_mainDocument =
     ''application/vnd.openxmlformats-officedocument.wordprocessingml.document.main+xml''"

definition FileMime_relationships :: FileMime where
  "FileMime_relationships = ''application/vnd.openxmlformats-package.relationships+xml''"

definition FileMime_styles :: FileMime where
  "FileMime_styles =
     ''application/vnd.openxmlformats-officedocument.wordprocessingml.styles+xml''"

definition FileMime_webSettings :: FileMime where
  "FileMime_webSettings =
     ''application/vnd.openxmlformats-officedocument.wordprocessingml.webSettings+xml''"

section \<open>XML nodes\<close>

text \<open>
  A DOM element: its name, its attributes in document order and its child nodes. A name
  is the text an XQuery constructor or path step is given for it. In Break.ts that text
  is \<^verbatim>\<open>${QNS.w}\<close> followed by a local name, where \<^verbatim>\<open>QNS.w\<close> (of
  utilities/namespaces.ts, which is not among the sources) stands for the
  WordprocessingML namespace: it is the parameter \<open>w\<close> of the functions below. The
  \<^verbatim>\<open>nodeName\<close> that the DOM derives from a name and the prefix in scope is not part of
  this model.
\<close>

datatype xml_node =
  Element (element_name: string) (attributes: "(string \<times> string) list")
    (childNodes: "xml_node list")

text \<open>\<^verbatim>\<open>./@name/string()\<close> evaluated into a map entry: the attribute's value, or the
  empty sequence, which the XPath bridge hands to JavaScript as \<^verbatim>\<open>null\<close>.\<close>

definition attribute_string :: "string \<Rightarrow> xml_node \<Rightarrow> string optional" where
  "attribute_string a node =
     (case map_of (attributes node) a of None \<Rightarrow> Null | Some v \<Rightarrow> Value v)"

text \<open>\<^verbatim>\<open>if (exists($v)) then attribute name { $v } else ()\<close>, where a \<^verbatim>\<open>null\<close>
  variable is the empty sequence.\<close>

definition attribute_if_exists :: "string \<Rightarrow> string option \<Rightarrow> (string \<times> string) list" where
  "attribute_if_exists a v = (case v of None \<Rightarrow> [] | Some s \<Rightarrow> [(a, s)])"

section \<open>components/Break.ts\<close>

record BreakProps =
  type :: "string optional"
  clear :: "string optional"

text \<open>
  \<^verbatim>\<open>new Break(props, ...children)\<close>: a component holds its props and its children.
  \<^verbatim>\<open>BreakChild = never\<close>, so the children of a well-typed Break are the empty list.
\<close>

record 'c Break =
  props :: BreakProps
  children :: "'c list"

text \<open>The values the type \<^verbatim>\<open>BreakProps\<close> admits.\<close>

definition BreakProps_type_values :: "string list" where
  "BreakProps_type_values = [''page'', ''column'', ''textWrapping'']"

definition BreakProps_clear_values :: "string list" where
  "BreakProps_clear_values = [''left'', ''right'', ''all'', ''none'']"

fun admits :: "string list \<Rightarrow> string optional \<Rightarrow> bool" where
  "admits vs (Value s) = (s \<in> set vs)"
| "admits vs _ = True"

definition well_typed_Break :: "'c Break \<Rightarrow> bool" where
  "well_typed_Break b =
     (admits BreakProps_type_values (type (props b)) \<and>
      admits BreakProps_clear_values (clear (props b)) \<and>
      children b = [])"

text \<open>
  \<^verbatim>\<open>toNode\<close> builds the element \<^verbatim>\<open>${QNS.w}br\<close> with the attributes
  \<^verbatim>\<open>${QNS.w}type\<close> and \<^verbatim>\<open>${QNS.w}clear\<close>, each only if its variable exists;
  \<^verbatim>\<open>fromNode\<close> reads the same two attribute names back.
\<close>

definition Break_toNode :: "string \<Rightarrow> 'c Break \<Rightarrow> xml_node" where
  "Break_toNode w b =
     Element (w @ ''br'')
       (attribute_if_exists (w @ ''type'') (or_null (type (props b))) @
        attribute_if_exists (w @ ''clear'') (or_null (clear (props b))))
       []"

definition Break_fromNode :: "string \<Rightarrow> xml_node \<Rightarrow> 'c Break" where
  "Break_fromNode w node =
     \<lparr>props = \<lparr>type = attribute_string (w @ ''type'') node,
                clear = attribute_string (w @ ''clear'') node\<rparr>,
      children = []\<rparr>"

text \<open>What a prop left out becomes once it has been through XML: \<^verbatim>\<open>null\<close>.\<close>

fun absent_as_null :: "'a optional \<Rightarrow> 'a optional" where
  "absent_as_null Undefined = Null"
| "absent_as_null v = v"

section \<open>The DOTX template (unnamed/part_000)\<close>

datatype DotxStyle = DotxStyle (name: string)

text \<open>
  \<^verbatim>\<open>availableStyleNames\<close> is \<^verbatim>\<open>null\<close> until \<^verbatim>\<open>init\<close> has assigned it;
  \<^verbatim>\<open>styles\<close> is the \<^verbatim>\<open>Map\<close> of the styles handed out so far.
\<close>

record DotxTemplate =
  template_location :: string
  availableStyleNames :: "string list option"
  styles :: "string \<rightharpoonup> DotxStyle"

definition DotxTemplate_new :: "string \<Rightarrow> DotxTemplate" where
  "DotxTemplate_new loc =
     \<lparr>template_location = loc, availableStyleNames = None, styles = Map.empty\<rparr>"

text \<open>
  \<^verbatim>\<open>init\<close> awaits the archive entry \<^verbatim>\<open>word/styles.xml\<close> (\<open>file\<close>: what that read
  gives, an error when the archive cannot be read) and evaluates the XPath for the style
  names on the parsed text (\<open>names_of\<close>: the parser and XPath evaluator, which may
  throw). Only the last statement but one assigns \<^verbatim>\<open>availableStyleNames\<close>.
\<close>

definition init ::
  "(string \<Rightarrow> error + string) \<Rightarrow> (string \<Rightarrow> error + string list) \<Rightarrow> DotxTemplate
     \<Rightarrow> (error + string) \<times> DotxTemplate" where
  "init file names_of t =
     (case file ''word/styles.xml'' of
        Inl e \<Rightarrow> (Inl e, t)
      | Inr xml \<Rightarrow>
          (case names_of xml of
             Inl e \<Rightarrow> (Inl e, t)
           | Inr ns \<Rightarrow> (Inr xml, t\<lparr>availableStyleNames := Some ns\<rparr>)))"

definition DXE010 :: string where
  "DXE010 = ''DXE010:Cannot use styles without calling `init` first.''"

definition DXE011 :: "string \<Rightarrow> string list \<Rightarrow> string" where
  "DXE011 n ns =
     ''DXE011:Style \"'' @ n @
     ''\" is not available in this template. The only available style names are: '' @
     join '', '' ns"

definition style :: "string \<Rightarrow> DotxTemplate \<Rightarrow> (error + DotxStyle) \<times> DotxTemplate" where
  "style n t =
     (case availableStyleNames t of
        None \<Rightarrow> (Inl (Error DXE010), t)
      | Some ns \<Rightarrow>
          if n \<notin> set ns then (Inl (Error (DXE011 n ns)), t)
          else (case styles t n of
                  None \<Rightarrow>
                    (let newStyle = DotxStyle n
                     in (Inr newStyle, t\<lparr>styles := (styles t)(n \<mapsto> newStyle)\<rparr>))
                | Some s \<Rightarrow> (Inr s, t)))"

section \<open>classes/XmlFile.ts and its subclasses\<close>

text \<open>
  The classes of the sources: \<^verbatim>\<open>XmlFile\<close>, \<^verbatim>\<open>UnhandledXmlFile extends XmlFile\<close>, and
  \<^verbatim>\<open>FontTable\<close>, \<^verbatim>\<open>WebSettings\<close>, \<^verbatim>\<open>ExtendedProperties\<close>, each extending
  \<^verbatim>\<open>UnhandledXmlFile\<close>.
\<close>

datatype file_class =
  XmlFile_class | UnhandledXmlFile_class | FontTable_class | WebSettings_class
  | ExtendedProperties_class

fun superclass :: "file_class \<Rightarrow> file_class option" where
  "superclass XmlFile_class = None"
| "superclass UnhandledXmlFile_class = Some XmlFile_class"
| "superclass FontTable_class = Some UnhandledXmlFile_class"
| "superclass WebSettings_class = Some UnhandledXmlFile_class"
| "superclass ExtendedProperties_class = Some UnhandledXmlFile_class"

text \<open>The \<^verbatim>\<open>static contentType\<close> a class body declares itself, if it declares one.\<close>

fun declared_contentType :: "file_class \<Rightarrow> FileMime option" where
  "declared_contentType XmlFile_class = Some FileMime_xml"
| "declared_contentType UnhandledXmlFile_class = None"
| "declared_contentType FontTable_class = Some FileMime_fontTable"
| "declared_contentType WebSettings_class = Some FileMime_webSettings"
| "declared_contentType ExtendedProperties_class = Some FileMime_extendedProperties"

fun class_depth :: "file_class \<Rightarrow> nat" where
  "class_depth XmlFile_class = 0"
| "class_depth UnhandledXmlFile_class = 1"
| "class_depth FontTable_class = 2"
| "class_depth WebSettings_class = 2"
| "class_depth ExtendedProperties_class = 2"

text \<open>
  Reading the static property \<^verbatim>\<open>C.contentType\<close>: the class's own declaration, else
  the one found along \<^verbatim>\<open>extends\<close>; \<open>None\<close> is \<^verbatim>\<open>undefined\<close>.
\<close>

function static_contentType :: "file_class \<Rightarrow> FileMime option" where
  "static_contentType c =
     (case declared_contentType c of
        Some m \<Rightarrow> Some m
      | None \<Rightarrow> (case superclass c of None \<Rightarrow> None | Some s \<Rightarrow> static_contentType s))"
  by pat_completeness auto
termination
  by (relation "measure class_depth") (auto elim: superclass.elims)

declare static_contentType.simps [simp del]

text \<open>
  An instance: the class that constructed it (\<^verbatim>\<open>this.constructor\<close>), its
  \<^verbatim>\<open>location\<close>, and the private \<^verbatim>\<open>#xml\<close> of an \<^verbatim>\<open>UnhandledXmlFile\<close> (unused by
  the base class).
\<close>

record XmlFile =
  constructor :: file_class
  location :: string
  xml :: string

definition contentType :: "XmlFile \<Rightarrow> FileMime option" where
  "contentType this = static_contentType (constructor this)"

fun class_name :: "file_class \<Rightarrow> string" where
  "class_name XmlFile_class = ''XmlFile''"
| "class_name UnhandledXmlFile_class = ''UnhandledXmlFile''"
| "class_name FontTable_class = ''FontTable''"
| "class_name WebSettings_class = ''WebSettings''"
| "class_name ExtendedProperties_class = ''ExtendedProperties''"

text \<open>
  \<^verbatim>\<open>toNode\<close>: the base class throws; \<^verbatim>\<open>UnhandledXmlFile\<close> and its subclasses parse
  their text (\<open>parse\<close> is the XML parser, which may throw).
\<close>

definition XmlFile_toNode :: "(string \<Rightarrow> error + 'd) \<Rightarrow> XmlFile \<Rightarrow> error + 'd" where
  "XmlFile_toNode parse this =
     (if constructor this = XmlFile_class
      then Inl (Error (class_name (constructor this) @ ''#toNode() is not implemented''))
      else parse (xml this))"

subsection \<open>Objects with overridable methods, and the archive\<close>

type_synonym bytes = "nat list"

text \<open>
  Modelled from the spec: the archive (classes/Archive.ts is not among the sources) gives
  named-entry write access, "write XML/binary at path". An archive is the sequence of the
  writes made to it; what it holds at a path is the last write there.
\<close>

datatype 'd archive_entry = XmlEntry 'd | BinaryEntry bytes

type_synonym 'd Archive = "(string \<times> 'd archive_entry) list"

definition addXmlFile :: "string \<Rightarrow> 'd \<Rightarrow> 'd Archive \<Rightarrow> 'd Archive" where
  "addXmlFile path node archive = archive @ [(path, XmlEntry node)]"

definition addBinaryFile :: "string \<Rightarrow> bytes \<Rightarrow> 'd Archive \<Rightarrow> 'd Archive" where
  "addBinaryFile path buffer archive = archive @ [(path, BinaryEntry buffer)]"

definition entries :: "'d Archive \<Rightarrow> string \<rightharpoonup> 'd archive_entry" where
  "entries archive = map_of (rev archive)"

text \<open>
  \<^verbatim>\<open>toNode\<close>, \<^verbatim>\<open>isEmpty\<close> and \<^verbatim>\<open>getRelated\<close> are methods a subclass may override, so
  a file object is what its methods return: an \<^verbatim>\<open>XmlFile\<close> (of any subclass) with its
  location, the outcome of \<^verbatim>\<open>toNode()\<close>, the answer of \<^verbatim>\<open>isEmpty()\<close> and the files
  its \<^verbatim>\<open>getRelated()\<close> lists after itself; or a \<^verbatim>\<open>BinaryFile\<close>.
\<close>

text \<open>
  Modelled from the spec: \<^verbatim>\<open>BinaryFile\<close> (classes/BinaryFile.ts is not among the
  sources) is a part of opaque bytes, whose \<^verbatim>\<open>addToArchive\<close> writes them at its location.
\<close>

datatype 'd File =
  instanceof_XmlFile: XmlFile_object (file_location: string) (file_toNode: "error + 'd") (file_isEmpty: bool)
    (file_related: "'d File list")
  | BinaryFile_object (file_location: string) (file_bytes: bytes) (file_isEmpty: bool)

text \<open>The methods of the classes in the sources: \<^verbatim>\<open>isEmpty\<close> answers false and
  \<^verbatim>\<open>getRelated\<close> lists the instance alone.\<close>

definition object_of :: "(string \<Rightarrow> error + 'd) \<Rightarrow> XmlFile \<Rightarrow> 'd File" where
  "object_of parse this = XmlFile_object (location this) (XmlFile_toNode parse this) False []"

fun getRelated :: "'d File \<Rightarrow> 'd File list" where
  "getRelated (XmlFile_object l n e rel) = XmlFile_object l n e rel # rel"
| "getRelated (BinaryFile_object l b e) = [BinaryFile_object l b e]"

text \<open>
  \<^verbatim>\<open>addToArchive\<close> maps an \<^verbatim>\<open>async\<close> callback over \<^verbatim>\<open>getRelated()\<close>. Each call
  of the callback runs inside \<^verbatim>\<open>map\<close> up to its first \<^verbatim>\<open>await\<close>: for an
  \<^verbatim>\<open>XmlFile\<close> that is the call of \<^verbatim>\<open>toNode()\<close>, whose document is awaited, so nothing
  is written yet; anything else is asked to add itself, without being awaited, and a
  \<^verbatim>\<open>BinaryFile\<close> writes its bytes then and there.
\<close>

fun before_await :: "'d File \<Rightarrow> 'd Archive \<Rightarrow> 'd Archive" where
  "before_await (XmlFile_object l n e rel) archive = archive"
| "before_await (BinaryFile_object l b e) archive = addBinaryFile l b archive"

text \<open>
  The rest of the callback runs once \<^verbatim>\<open>map\<close> has returned: an \<^verbatim>\<open>XmlFile\<close> whose
  \<^verbatim>\<open>toNode()\<close> gave a document is written with \<^verbatim>\<open>addXmlFile\<close>; one whose
  \<^verbatim>\<open>toNode()\<close> threw writes nothing, and its promise is rejected with the error.
\<close>

fun after_await :: "'d File \<Rightarrow> 'd Archive \<Rightarrow> 'd Archive" where
  "after_await (XmlFile_object l n e rel) archive =
     (case n of Inl err \<Rightarrow> archive | Inr node \<Rightarrow> addXmlFile l node archive)"
| "after_await (BinaryFile_object l b e) archive = archive"

fun rejection :: "'d File \<Rightarrow> error option" where
  "rejection (XmlFile_object l n e rel) = (case n of Inl err \<Rightarrow> Some err | Inr node \<Rightarrow> None)"
| "rejection (BinaryFile_object l b e) = None"

text \<open>
  \<^verbatim>\<open>await Promise.all(...)\<close>: every callback runs to its end. The result is the list of
  the rejections of the mapped promises together with the archive as the callbacks leave
  it. \<^verbatim>\<open>addToArchive\<close> completes when there is no rejection, and otherwise rejects with
  the one that \<^verbatim>\<open>Promise.all\<close> sees first. The continuations are run here in the order
  of the list, as they are when every \<^verbatim>\<open>toNode()\<close> has its document at hand; the order
  in which documents promised for later arrive is not modelled.
\<close>

definition addToArchive :: "'d File \<Rightarrow> 'd Archive \<Rightarrow> error list \<times> 'd Archive" where
  "addToArchive this archive =
     (let related = getRelated this;
          mapped = fold before_await related archive
      in (List.map_filter rejection related, fold after_await related mapped))"

text \<open>The write a related file amounts to.\<close>

fun written :: "'d File \<Rightarrow> (string \<times> 'd archive_entry) option" where
  "written (XmlFile_object l n e rel) =
     (case n of Inl err \<Rightarrow> None | Inr node \<Rightarrow> Some (l, XmlEntry node))"
| "written (BinaryFile_object l b e) = Some (l, BinaryEntry b)"

section \<open>The rule results of Docx.ts\<close>

text \<open>\<^verbatim>\<open>type RuleResult = Component | string | null | Array<RuleResult>\<close>\<close>

datatype 'c RuleResult =
  RComponent 'c | RString string | RNull | RArray "'c RuleResult list"

text \<open>
  The reducer \<^verbatim>\<open>flatten\<close> of \<^verbatim>\<open>Docx#fromXml\<close>; \<^verbatim>\<open>xs.reduce(flatten, [])\<close> is
  \<open>foldl flatten [] xs\<close>.
\<close>

fun flatten :: "'c list \<Rightarrow> 'c RuleResult \<Rightarrow> 'c list" where
  "flatten flat RNull = flat"
| "flatten flat (RString s) = flat"
| "flatten flat (RArray child) = flat @ foldl flatten [] child"
| "flatten flat (RComponent child) = flat @ [child]"

text \<open>\<^verbatim>\<open>(Array.isArray(ast) ? ast : [ast]).reduce(flatten, [])\<close>\<close>

definition fromXml_children :: "'c RuleResult \<Rightarrow> 'c list" where
  "fromXml_children ast = foldl flatten [] (case ast of RArray xs \<Rightarrow> xs | _ \<Rightarrow> [ast])"

text \<open>
  The flattening as the specification words it: \<^verbatim>\<open>null\<close> entries are dropped, nested
  sequences are spliced in place, text and components are kept in order.
\<close>

fun spec_flatten :: "'c RuleResult \<Rightarrow> (string + 'c) list" where
  "spec_flatten RNull = []"
| "spec_flatten (RString s) = [Inl s]"
| "spec_flatten (RComponent c) = [Inr c]"
| "spec_flatten (RArray xs) = concat (map spec_flatten xs)"

fun components_of :: "(string + 'c) list \<Rightarrow> 'c list" where
  "components_of [] = []"
| "components_of (Inl s # xs) = components_of xs"
| "components_of (Inr c # xs) = c # components_of xs"

section \<open>Relationships, content types and the office document\<close>

text \<open>
  Docx.ts builds on \<^verbatim>\<open>files/Relationships.ts\<close>, \<^verbatim>\<open>files/ContentTypes.ts\<close>,
  \<^verbatim>\<open>files/OfficeDocument.ts\<close> and \<^verbatim>\<open>components/Image.ts\<close>, which are not among the
  sources. This section models them from the specification; Docx.ts itself follows in
  the next section, from its source.
\<close>

subsection \<open>The relationship graph of one owning part\<close>

text \<open>
  Modelled from the spec: \<^verbatim>\<open>RelationshipType\<close>, the tag of an edge. Docx.ts names
  \<^verbatim>\<open>RelationshipType.officeDocument\<close>; images have a type of their own.
\<close>

datatype RelationshipType =
  RelationshipType_officeDocument | RelationshipType_image | RelationshipType_other string

text \<open>
  Modelled from the spec: a relationship edge \<^verbatim>\<open>{ id, type, target }\<close>, the id unique
  within the owning part. An id is the number of ids the owner had minted before it.
\<close>

record 'f relationship =
  rel_id :: nat
  rel_type :: RelationshipType
  rel_target :: 'f

record 'f Relationships =
  rels_location :: string
  meta :: "'f relationship list"
  minted :: nat

text \<open>Modelled from the spec: \<^verbatim>\<open>new Relationships(location)\<close>, a graph without edges.\<close>

definition Relationships_new :: "string \<Rightarrow> 'f Relationships" where
  "Relationships_new loc = \<lparr>rels_location = loc, meta = [], minted = 0\<rparr>"

text \<open>
  Modelled from the spec: \<^verbatim>\<open>add(type, part)\<close> "appends a new edge with a freshly minted
  unique ID"; ids are never reused. It returns the id.
\<close>

definition add :: "RelationshipType \<Rightarrow> 'f \<Rightarrow> 'f Relationships \<Rightarrow> nat \<times> 'f Relationships" where
  "add t instance r =
     (minted r,
      r\<lparr>meta := meta r @ [\<lparr>rel_id = minted r, rel_type = t, rel_target = instance\<rparr>],
        minted := Suc (minted r)\<rparr>)"

text \<open>Modelled from the spec: \<^verbatim>\<open>hasType(type)\<close>, "existence check, no side effect".\<close>

definition hasType :: "RelationshipType \<Rightarrow> 'f Relationships \<Rightarrow> bool" where
  "hasType t r = list_ex (\<lambda>e. rel_type e = t) (meta r)"

text \<open>
  Modelled from the spec: \<^verbatim>\<open>ensureRelationship(type, factory)\<close> "returns the first edge
  of that type if one exists, otherwise creates one via \<^verbatim>\<open>factory()\<close> and returns it".
  Docx.ts assigns the result to a variable of type \<^verbatim>\<open>OfficeDocument\<close>, so what is
  handed back is the file the edge leads to. The factory is a JavaScript closure: it runs
  on some state \<open>'h\<close> (for \<^verbatim>\<open>() => new OfficeDocument(...)\<close> the heap it allocates
  in), which is threaded through.
\<close>

definition ensureRelationship ::
  "RelationshipType \<Rightarrow> ('h \<Rightarrow> 'f \<times> 'h) \<Rightarrow> 'f Relationships \<times> 'h
     \<Rightarrow> 'f \<times> 'f Relationships \<times> 'h" where
  "ensureRelationship t factory rh =
     (case rh of (r, h) \<Rightarrow>
        (case find (\<lambda>e. rel_type e = t) (meta r) of
           Some e \<Rightarrow> (rel_target e, r, h)
         | None \<Rightarrow>
             (case factory h of (instance, h1) \<Rightarrow>
                (instance, snd (add t instance r), h1))))"

subsection \<open>Components, as far as \<^verbatim>\<open>Docx#toArchive\<close> looks at them\<close>

text \<open>
  Modelled from the spec: a binary part (\<^verbatim>\<open>BinaryFile\<close>) with its location, its MIME
  type and its bytes; an \<^verbatim>\<open>Image\<close> component embeds one.
\<close>

record BinaryFile =
  binary_location :: string
  binary_contentType :: FileMime
  binary_bytes :: bytes

datatype component_class = Image_class BinaryFile | Component_class string

text \<open>
  A child of a component is a string or a component; of a component the walk reads its
  class (\<^verbatim>\<open>instanceof Image\<close>), \<^verbatim>\<open>props.style\<close> and \<^verbatim>\<open>children\<close>.
\<close>

datatype AnyComponent =
  String_child string
  | Component (class_of: component_class) (props_style: "string optional")
      (component_children: "AnyComponent list")

subsection \<open>The parts of an archive\<close>

text \<open>
  Modelled from the spec: a part is \<^verbatim>\<open>{ location, contentType }\<close> and either XML-backed
  or binary. A part is represented by its class and the data its document is serialized
  from: a relationship index lists its edges as (id, type, location of the target).
  The MIME types of the classes are those \<^verbatim>\<open>enums.ts\<close> lists under their names.
\<close>

datatype part =
  Relationships_part string "(nat \<times> RelationshipType \<times> string) list"
  | OfficeDocument_part string "AnyComponent list"
  | Styles_part string "string list"
  | ContentTypes_part string "(string \<times> FileMime) list"
  | BinaryFile_part BinaryFile
  | XmlFile_part string FileMime string

fun part_location :: "part \<Rightarrow> string" where
  "part_location (Relationships_part l es) = l"
| "part_location (OfficeDocument_part l cs) = l"
| "part_location (Styles_part l ns) = l"
| "part_location (ContentTypes_part l os) = l"
| "part_location (BinaryFile_part b) = binary_location b"
| "part_location (XmlFile_part l m x) = l"

fun part_contentType :: "part \<Rightarrow> FileMime" where
  "part_contentType (Relationships_part l es) = FileMime_relationships"
| "part_contentType (OfficeDocument_part l cs) = FileMime_mainDocument"
| "part_contentType (Styles_part l ns) = FileMime_styles"
| "part_contentType (ContentTypes_part l os) = FileMime_xml"
| "part_contentType (BinaryFile_part b) = binary_contentType b"
| "part_contentType (XmlFile_part l m x) = m"

text \<open>\<^verbatim>\<open>related instanceof Relationships\<close>\<close>

fun instanceof_Relationships :: "part \<Rightarrow> bool" where
  "instanceof_Relationships (Relationships_part l es) = True"
| "instanceof_Relationships p = False"

text \<open>Writing one part: \<^verbatim>\<open>addBinaryFile\<close> for a binary part, \<^verbatim>\<open>addXmlFile\<close> otherwise.\<close>

fun add_part :: "part \<Rightarrow> part Archive \<Rightarrow> part Archive" where
  "add_part (BinaryFile_part b) archive = addBinaryFile (binary_location b) (binary_bytes b) archive"
| "add_part p archive = addXmlFile (part_location p) p archive"

subsection \<open>The content-type registry\<close>

text \<open>
  Modelled from the spec: a content-type entry is \<^verbatim>\<open>{ path, mime }\<close>, "globally unique
  per path"; registering an override for a path replaces the entry the path had.
\<close>

record ContentTypes =
  contentTypes_location :: string
  overrides :: "(string \<times> FileMime) list"

text \<open>Modelled from the spec: \<^verbatim>\<open>new ContentTypes(location)\<close>, a registry without
  overrides.\<close>

definition ContentTypes_new :: "string \<Rightarrow> ContentTypes" where
  "ContentTypes_new loc = \<lparr>contentTypes_location = loc, overrides = []\<rparr>"

text \<open>
  Modelled from the spec: a content-type entry is \<^verbatim>\<open>{ path, mime }\<close>, "globally unique
  per path", and \<^verbatim>\<open>addOverride(path, mime)\<close> "registers an explicit override" for a
  path. The spec does not say which registration stands when a path is registered a
  second time, the earlier one or the later one: that is the \<open>precedence\<close> the registry
  is run with.
\<close>

datatype precedence = Earlier_stands | Later_stands

definition addOverride ::
  "precedence \<Rightarrow> string \<Rightarrow> FileMime \<Rightarrow> ContentTypes \<Rightarrow> ContentTypes" where
  "addOverride prec path mime ct =
     (case prec of
        Earlier_stands \<Rightarrow>
          if path \<in> set (map fst (overrides ct)) then ct
          else ct\<lparr>overrides := overrides ct @ [(path, mime)]\<rparr>
      | Later_stands \<Rightarrow>
          ct\<lparr>overrides := filter (\<lambda>entry. fst entry \<noteq> path) (overrides ct) @ [(path, mime)]\<rparr>)"

text \<open>Modelled from the spec: step (4), "write the content-type registry".\<close>

definition ContentTypes_toArchive :: "ContentTypes \<Rightarrow> part Archive \<Rightarrow> part Archive" where
  "ContentTypes_toArchive ct archive =
     add_part (ContentTypes_part (contentTypes_location ct) (overrides ct)) archive"

subsection \<open>The style registry and the office document\<close>

text \<open>
  Modelled from the spec: the style registry of the document. \<^verbatim>\<open>ensureStyle(name)\<close>
  makes sure "that style exists in the style registry (creating a default entry if
  needed)".
\<close>

record Styles =
  styles_location :: string
  style_names :: "string list"

definition ensureStyle :: "string \<Rightarrow> Styles \<Rightarrow> Styles" where
  "ensureStyle n s = (if n \<in> set (style_names s) then s else s\<lparr>style_names := style_names s @ [n]\<rparr>)"

text \<open>
  Modelled from the spec: the office document owns the component tree of the document
  body, which \<^verbatim>\<open>set\<close> replaces wholesale, the style registry (\<^verbatim>\<open>styles\<close>) and its own
  relationship graph (\<^verbatim>\<open>relationships\<close>), whose edges lead to further parts.
\<close>

record OfficeDocument =
  document_location :: string
  document_children :: "AnyComponent list"
  document_styles :: Styles
  document_relationships :: "part Relationships"

text \<open>Modelled from the spec: \<^verbatim>\<open>new OfficeDocument(location)\<close>, a document without
  content, styles or edges; and \<^verbatim>\<open>set\<close>.\<close>

definition OfficeDocument_new :: "string \<Rightarrow> OfficeDocument" where
  "OfficeDocument_new loc =
     \<lparr>document_location = loc, document_children = [],
      document_styles = \<lparr>styles_location = FileLocation_styles, style_names = []\<rparr>,
      document_relationships = Relationships_new ''word/_rels/document.xml.rels''\<rparr>"

definition OfficeDocument_set :: "AnyComponent list \<Rightarrow> OfficeDocument \<Rightarrow> OfficeDocument" where
  "OfficeDocument_set root this = this\<lparr>document_children := root\<rparr>"

text \<open>
  Modelled from the spec: an \<^verbatim>\<open>Image\<close>'s \<^verbatim>\<open>ensureRelationship(relationships)\<close> makes
  sure "its relationship edge exists": an edge of the image type to its binary part.
\<close>

definition Image_ensureRelationship :: "BinaryFile \<Rightarrow> part Relationships \<Rightarrow> part Relationships" where
  "Image_ensureRelationship b r =
     (if list_ex (\<lambda>e. rel_type e = RelationshipType_image \<and> rel_target e = BinaryFile_part b) (meta r)
      then r
      else snd (add RelationshipType_image (BinaryFile_part b) r))"

subsection \<open>The heap of office documents\<close>

text \<open>
  An \<^verbatim>\<open>OfficeDocument\<close> is mutated in place and can be reached both through the
  relationship graph and through the cache \<^verbatim>\<open>_officeDocument\<close>, so office documents
  live in a store and are referred to by address. \<^verbatim>\<open>allocated\<close> counts the office
  documents constructed so far; the next one gets that number as its address.
\<close>

record heap =
  store :: "nat \<Rightarrow> OfficeDocument"
  allocated :: nat

definition empty_heap :: heap where
  "empty_heap = \<lparr>store = (\<lambda>a. OfficeDocument_new []), allocated = 0\<rparr>"

text \<open>
  What an edge of the top-level graph leads to: an office document in the store, or a
  part of another class.
\<close>

datatype target = OfficeDocument_at nat | Other_file part

text \<open>\<^verbatim>\<open>() => new OfficeDocument(BundleFile.mainDocument)\<close>\<close>

definition new_OfficeDocument :: "string \<Rightarrow> heap \<Rightarrow> target \<times> heap" where
  "new_OfficeDocument loc h =
     (OfficeDocument_at (allocated h),
      h\<lparr>store := (store h)(allocated h := OfficeDocument_new loc),
        allocated := Suc (allocated h)\<rparr>)"

text \<open>
  Modelled from the spec: \<^verbatim>\<open>getRelated()\<close> "returns the Part itself plus, recursively,
  every Part reachable by relationship edges", as a flat list. The related parts of an
  office document are the document, its style registry, its relationship index and the
  parts its edges lead to; those of the top-level graph are its index and the related
  parts of every file its edges lead to.
\<close>

definition Relationships_index :: "('f \<Rightarrow> string) \<Rightarrow> 'f Relationships \<Rightarrow> part" where
  "Relationships_index location_of r =
     Relationships_part (rels_location r)
       (map (\<lambda>e. (rel_id e, rel_type e, location_of (rel_target e))) (meta r))"

definition OfficeDocument_getRelated :: "OfficeDocument \<Rightarrow> part list" where
  "OfficeDocument_getRelated this =
     OfficeDocument_part (document_location this) (document_children this)
     # Styles_part (styles_location (document_styles this)) (style_names (document_styles this))
     # Relationships_index part_location (document_relationships this)
     # map rel_target (meta (document_relationships this))"

fun target_location :: "heap \<Rightarrow> target \<Rightarrow> string" where
  "target_location h (OfficeDocument_at a) = document_location (store h a)"
| "target_location h (Other_file p) = part_location p"

fun target_getRelated :: "heap \<Rightarrow> target \<Rightarrow> part list" where
  "target_getRelated h (OfficeDocument_at a) = OfficeDocument_getRelated (store h a)"
| "target_getRelated h (Other_file p) = [p]"

definition Relationships_getRelated :: "heap \<Rightarrow> target Relationships \<Rightarrow> part list" where
  "Relationships_getRelated h r =
     Relationships_index (target_location h) r
     # concat (map (\<lambda>e. target_getRelated h (rel_target e)) (meta r))"

text \<open>
  Modelled from the spec: \<^verbatim>\<open>toArchive(archive)\<close> "writes the relationships file for the
  owning Part (an index of its own outgoing edges) and recurses into \<^verbatim>\<open>getRelated()\<close>".
\<close>

definition Relationships_toArchive ::
  "heap \<Rightarrow> target Relationships \<Rightarrow> part Archive \<Rightarrow> part Archive" where
  "Relationships_toArchive h r archive = fold add_part (Relationships_getRelated h r) archive"

section \<open>Docx.ts\<close>

text \<open>
  The fields of a \<^verbatim>\<open>Docx\<close>: \<^verbatim>\<open>contentTypes\<close>, \<^verbatim>\<open>relationships\<close>, the rules of
  \<^verbatim>\<open>_renderer\<close> and the cache \<^verbatim>\<open>_officeDocument\<close>; with them the heap its office
  documents live in. The rules are those of the external \<^verbatim>\<open>GenericRenderer\<close>, of
  which only their number (\<^verbatim>\<open>_renderer.length\<close>) is looked at here.
\<close>

record 'rule Docx =
  contentTypes :: ContentTypes
  relationships :: "target Relationships"
  renderer :: "'rule list"
  officeDocument :: "target option"
  heap :: heap

text \<open>
  The constructor; the field initializers leave \<^verbatim>\<open>_officeDocument\<close> \<^verbatim>\<open>null\<close> and the
  renderer empty, and \<^verbatim>\<open>_renderer.merge(rules)\<close> adds the rules given. \<open>h\<close> is the heap
  the relationships given refer into.
\<close>

definition Docx_new ::
  "ContentTypes \<Rightarrow> target Relationships \<Rightarrow> 'rule list option \<Rightarrow> heap \<Rightarrow> 'rule Docx" where
  "Docx_new cts rels rules h =
     (let this = \<lparr>contentTypes = cts, relationships = rels,
                  renderer = (case rules of None \<Rightarrow> [] | Some rs \<Rightarrow> [] @ rs),
                  officeDocument = None, heap = h\<rparr>
      in if \<not> hasType RelationshipType_officeDocument (relationships this)
         then (case new_OfficeDocument FileLocation_mainDocument (heap this) of
                 (doc, h1) \<Rightarrow>
                   this\<lparr>relationships :=
                          snd (add RelationshipType_officeDocument doc (relationships this)),
                        heap := h1\<rparr>)
         else this)"

text \<open>The getter \<^verbatim>\<open>document\<close>: it returns the office document and the instance, whose
  cache it may have filled.\<close>

definition document :: "'rule Docx \<Rightarrow> target \<times> 'rule Docx" where
  "document this =
     (case officeDocument this of
        Some doc \<Rightarrow> (doc, this)
      | None \<Rightarrow>
          (case ensureRelationship RelationshipType_officeDocument
                  (new_OfficeDocument FileLocation_mainDocument)
                  (relationships this, heap this) of
             (doc, rels, h) \<Rightarrow>
               (doc, this\<lparr>officeDocument := Some doc, relationships := rels, heap := h\<rparr>)))"

text \<open>
  The function \<^verbatim>\<open>walk\<close> of \<^verbatim>\<open>toArchive\<close>. It runs on the two objects the method has
  taken from the document before the walk, \<^verbatim>\<open>styles\<close> and \<^verbatim>\<open>relationships\<close>.
  \<^verbatim>\<open>if (styleName)\<close> holds for a non-empty string.
\<close>

fun walk :: "AnyComponent \<Rightarrow> Styles \<times> part Relationships \<Rightarrow> Styles \<times> part Relationships" where
  "walk (String_child s) sr = sr"
| "walk (Component c styleName cs) sr =
     fold walk cs
       (case sr of (the_styles, the_relationships) \<Rightarrow>
          ((case or_null styleName of
              None \<Rightarrow> the_styles
            | Some n \<Rightarrow> ensureStyle n the_styles),
           (case c of
              Image_class b \<Rightarrow> Image_ensureRelationship b the_relationships
            | Component_class n \<Rightarrow> the_relationships)))"

text \<open>The \<^verbatim>\<open>TypeError\<close> of reading a property the object at hand does not have.\<close>

definition TypeError :: error where
  "TypeError = Error ''TypeError''"

text \<open>
  \<^verbatim>\<open>toArchive\<close>. The getter \<^verbatim>\<open>this.document\<close> is evaluated three times, for
  \<^verbatim>\<open>styles\<close>, for \<^verbatim>\<open>relationships\<close> and for \<^verbatim>\<open>children\<close>; reading a property of
  a file that is no office document gives \<^verbatim>\<open>undefined\<close>, and the walk then throws. The
  walk mutates the two objects in place, which here is written back to the store. The
  loop over \<^verbatim>\<open>getRelated()\<close> is the \<open>fold\<close> of \<open>collect_overrides\<close>; \<open>prec\<close> is the
  precedence of the content-type registry.
\<close>

definition collect_overrides :: "precedence \<Rightarrow> part list \<Rightarrow> ContentTypes \<Rightarrow> ContentTypes" where
  "collect_overrides prec related cts =
     fold (\<lambda>related. addOverride prec (part_location related) (part_contentType related))
       (filter (\<lambda>related. \<not> instanceof_Relationships related) related) cts"

definition toArchive :: "precedence \<Rightarrow> 'rule Docx \<Rightarrow> error + part Archive \<times> 'rule Docx" where
  "toArchive prec this =
     (case document this of (doc1, this1) \<Rightarrow>
     (case document this1 of (doc2, this2) \<Rightarrow>
     (case document this2 of (doc3, this3) \<Rightarrow>
       (case doc1 of Other_file p \<Rightarrow> Inl TypeError | OfficeDocument_at a1 \<Rightarrow>
       (case doc2 of Other_file p \<Rightarrow> Inl TypeError | OfficeDocument_at a2 \<Rightarrow>
       (case doc3 of Other_file p \<Rightarrow> Inl TypeError | OfficeDocument_at a3 \<Rightarrow>
          (let h = heap this3;
               walked = fold walk (document_children (store h a3))
                          (document_styles (store h a1), document_relationships (store h a2));
               h1 = h\<lparr>store := (store h)
                      (a1 := (store h a1)\<lparr>document_styles := fst walked\<rparr>)\<rparr>;
               h2 = h1\<lparr>store := (store h1)
                      (a2 := (store h1 a2)\<lparr>document_relationships := snd walked\<rparr>)\<rparr>;
               this4 = this3\<lparr>heap := h2\<rparr>;
               archive = Relationships_toArchive (heap this4) (relationships this4) [];
               this5 = this4\<lparr>contentTypes :=
                         collect_overrides prec
                           (Relationships_getRelated (heap this4) (relationships this4))
                           (contentTypes this4)\<rparr>
           in Inr (ContentTypes_toArchive (contentTypes this5) archive, this5))))))))"

definition fromNothing :: "'rule Docx" where
  "fromNothing =
     Docx_new (ContentTypes_new FileLocation_contentTypes)
       (Relationships_new FileLocation_relationships) None empty_heap"

definition root_count_message :: "nat \<Rightarrow> string" where
  "root_count_message n =
     ''Found '' @ string_of_nat n @
     '' root elements, but exactly 1 expected. This may be caused by invalid nesting that could not be repaired.''"

text \<open>\<^verbatim>\<open>this.document.set(root)\<close>\<close>

definition document_set :: "AnyComponent list \<Rightarrow> 'rule Docx \<Rightarrow> error + 'rule Docx" where
  "document_set root this =
     (case document this of
        (Other_file p, this1) \<Rightarrow> Inl TypeError
      | (OfficeDocument_at a, this1) \<Rightarrow>
          Inr (this1\<lparr>heap := (heap this1)\<lparr>store := (store (heap this1))
                 (a := OfficeDocument_set root (store (heap this1) a))\<rparr>\<rparr>))"

definition fromJsx :: "AnyComponent list \<Rightarrow> error + 'rule Docx" where
  "fromJsx roots =
     (if length roots \<noteq> 1 then Inl (Error (root_count_message (length roots)))
      else document_set [roots ! 0] fromNothing)"

definition withXmlRule :: "'rule \<Rightarrow> 'rule Docx \<Rightarrow> 'rule Docx" where
  "withXmlRule rule this = this\<lparr>renderer := renderer this @ [rule]\<rparr>"

definition no_rules_message :: string where
  "no_rules_message =
     ''No XML transformation rules were configured, creating a DOCX from XML is therefore not possible.''"

text \<open>
  \<^verbatim>\<open>fromXml\<close>. \<open>parse\<close> is the XML parser and \<open>render\<close> the external renderer, given
  the rules, the parsed input and the props with the document; either may throw. The
  arguments of \<^verbatim>\<open>render\<close> are evaluated in order: first \<^verbatim>\<open>parse(xml)\<close>, then the getter
  \<^verbatim>\<open>this.document\<close>.
\<close>

definition fromXml ::
  "(string \<Rightarrow> error + 'dom) \<Rightarrow>
   ('rule list \<Rightarrow> 'dom \<Rightarrow> target \<Rightarrow> 'props \<Rightarrow> error + AnyComponent RuleResult) \<Rightarrow>
   string \<Rightarrow> 'props \<Rightarrow> 'rule Docx \<Rightarrow> (error + unit) \<times> 'rule Docx" where
  "fromXml parse render xml_text properties this =
     (if length (renderer this) = 0 then (Inl (Error no_rules_message), this)
      else (case parse xml_text of
              Inl e \<Rightarrow> (Inl e, this)
            | Inr parsed \<Rightarrow>
                (case document this of
                   (doc, this1) \<Rightarrow>
                     (case render (renderer this1) parsed doc properties of
                        Inl e \<Rightarrow> (Inl e, this1)
                      | Inr ast \<Rightarrow>
                          (case document_set (fromXml_children ast) this1 of
                             Inl e \<Rightarrow> (Inl e, this1)
                           | Inr this2 \<Rightarrow> (Inr (), this2))))))"

text \<open>The body of the document: the children of the office document the getter returns.\<close>

definition body :: "'rule Docx \<Rightarrow> AnyComponent list option" where
  "body this =
     (case fst (document this) of
        OfficeDocument_at a \<Rightarrow> Some (document_children (store (heap (snd (document this))) a))
      | Other_file p \<Rightarrow> None)"

section \<open>Notions the properties are stated with\<close>

text \<open>
  What the walk looks for in one node: the style it declares (a non-empty
  \<^verbatim>\<open>props.style\<close>) and, for an \<^verbatim>\<open>Image\<close>, the binary part it embeds.
\<close>

fun declared_style :: "AnyComponent \<Rightarrow> string option" where
  "declared_style (String_child s) = None"
| "declared_style (Component c styleName cs) = or_null styleName"

fun embedded_image :: "AnyComponent \<Rightarrow> BinaryFile option" where
  "embedded_image (Component (Image_class b) styleName cs) = Some b"
| "embedded_image c = None"

text \<open>The nodes of a tree in depth-first pre-order: a node, then its children's trees in
  order.\<close>

fun preorder :: "AnyComponent \<Rightarrow> AnyComponent list" where
  "preorder (String_child s) = [String_child s]"
| "preorder (Component c styleName cs) = Component c styleName cs # concat (map preorder cs)"

text \<open>The effect of visiting one node, without its children.\<close>

definition visit ::
  "AnyComponent \<Rightarrow> Styles \<times> part Relationships \<Rightarrow> Styles \<times> part Relationships" where
  "visit c sr =
     ((case declared_style c of None \<Rightarrow> fst sr | Some n \<Rightarrow> ensureStyle n (fst sr)),
      (case embedded_image c of None \<Rightarrow> snd sr | Some b \<Rightarrow> Image_ensureRelationship b (snd sr)))"

text \<open>The archive entry a part is written as.\<close>

fun part_entry :: "part \<Rightarrow> string \<times> part archive_entry" where
  "part_entry (BinaryFile_part b) = (binary_location b, BinaryEntry (binary_bytes b))"
| "part_entry p = (part_location p, XmlEntry p)"

text \<open>
  The cache \<^verbatim>\<open>_officeDocument\<close>, when filled, holds a file that an edge of
  \<^verbatim>\<open>relationships\<close> leads to. The constructor leaves the cache empty and the getter
  fills it from the graph, so this holds of every instance the methods of the class
  produce.
\<close>

definition cached_in_graph :: "'rule Docx \<Rightarrow> bool" where
  "cached_in_graph this =
     (case officeDocument this of
        None \<Rightarrow> True
      | Some doc \<Rightarrow> doc \<in> rel_target ` set (meta (relationships this)))"

text \<open>The number a string of decimal digits denotes.\<close>

definition nat_of_string :: "string \<Rightarrow> nat" where
  "nat_of_string s = foldl (\<lambda>acc c. 10 * acc + (of_char c - 48)) 0 s"

section \<open>An example document\<close>

text \<open>
  \<^verbatim>\<open>Docx.fromJsx([<Paragraph style="Heading1">hi<Image .../></Paragraph>])\<close>: a paragraph
  that declares a style and holds a string and an image.
\<close>

definition example_image :: BinaryFile where
  "example_image =
     \<lparr>binary_location = ''word/media/1.png'', binary_contentType = ''image/png'',
      binary_bytes = [137, 80]\<rparr>"

definition example_root :: AnyComponent where
  "example_root =
     Component (Component_class ''Paragraph'') (Value ''Heading1'')
       [String_child ''hi'', Component (Image_class example_image) Undefined []]"

definition example_docx :: "unit Docx" where
  "example_docx = projr (fromJsx [example_root])"




chapter \<open>Properties\<close>

section \<open>The DOTX template\<close>

lemma sublist_behind: "sublist a ys \<Longrightarrow> sublist a (xs @ ys)"
proof -
  assume "sublist a ys"
  then obtain ps ss where "ys = ps @ a @ ss" by (auto simp: sublist_def)
  then have "xs @ ys = (xs @ ps) @ a @ ss" by simp
  then show ?thesis unfolding sublist_def by blast
qed

lemma sublist_join: "a \<in> set ns \<Longrightarrow> sublist a (join sep ns)"
proof (induction sep ns rule: join.induct)
  case (1 sep)
  then show ?case by simp
next
  case (2 sep x)
  then show ?case by simp
next
  case (3 sep x y ys)
  show ?case
  proof (cases "a = x")
    case True
    then show ?thesis by simp
  next
    case False
    with 3 have "sublist a (join sep (y # ys))" by simp
    then have "sublist a ((x @ sep) @ join sep (y # ys))" by (rule sublist_behind)
    then show ?thesis by simp
  qed
qed

lemma sublist_DXE011: "a \<in> set ns \<Longrightarrow> sublist a (DXE011 n ns)"
  unfolding DXE011_def
  by (intro sublist_behind sublist_join)

text \<open>
  Claim C9. \<^verbatim>\<open>DotxTemplate#style(name)\<close> throws while \<^verbatim>\<open>availableStyleNames\<close> is still
  \<^verbatim>\<open>null\<close>, which it is from construction until \<^verbatim>\<open>init\<close> has completed (a failing
  \<^verbatim>\<open>init\<close> leaves the template as it was); it throws the DXE011 error when the name is
  not among the available style names, and every available name occurs in that message.
  In both cases the template, its style map included, is returned unchanged, so no
  style was created.
\<close>

theorem style_fails_closed:
  "(availableStyleNames t = None \<longrightarrow> style n t = (Inl (Error DXE010), t)) \<and>
   (\<forall>ns. availableStyleNames t = Some ns \<and> n \<notin> set ns \<longrightarrow>
      style n t = (Inl (Error (DXE011 n ns)), t) \<and>
      (\<forall>a \<in> set ns. sublist a (DXE011 n ns))) \<and>
   availableStyleNames (DotxTemplate_new loc) = None \<and>
   (\<forall>e. fst (init file names_of t) = Inl e \<longrightarrow> snd (init file names_of t) = t)"
  by (auto simp: style_def DotxTemplate_new_def init_def sublist_DXE011
      split: option.splits sum.splits)

theorem style_fails_closed_witness:
  "style ''Title'' (DotxTemplate_new ''a.dotx'')
     = (Inl (Error DXE010), DotxTemplate_new ''a.dotx'') \<and>
   style ''Title''
       ((DotxTemplate_new ''a.dotx'')\<lparr>availableStyleNames := Some [''Normal'', ''Heading1'']\<rparr>)
     = (Inl (Error (DXE011 ''Title'' [''Normal'', ''Heading1''])),
        (DotxTemplate_new ''a.dotx'')\<lparr>availableStyleNames := Some [''Normal'', ''Heading1'']\<rparr>) \<and>
   sublist ''Heading1'' (DXE011 ''Title'' [''Normal'', ''Heading1'']) \<and>
   snd (init (\<lambda>p. Inl (Error ''DXE004'')) (\<lambda>x. Inr []) (DotxTemplate_new ''a.dotx''))
     = DotxTemplate_new ''a.dotx''"
  using style_fails_closed [of "DotxTemplate_new ''a.dotx''" "''Title''" "''a.dotx''"
      "\<lambda>p. Inl (Error ''DXE004'')" "\<lambda>x. Inr []"]
    style_fails_closed [of
      "(DotxTemplate_new ''a.dotx'')\<lparr>availableStyleNames := Some [''Normal'', ''Heading1'']\<rparr>"
      "''Title''"]
  by (simp add: DotxTemplate_new_def init_def)

section \<open>The content type of an XML file\<close>

lemma static_contentType_cases:
  "static_contentType c =
     Some (case c of
             FontTable_class \<Rightarrow> FileMime_fontTable
           | WebSettings_class \<Rightarrow> FileMime_webSettings
           | ExtendedProperties_class \<Rightarrow> FileMime_extendedProperties
           | _ \<Rightarrow> FileMime_xml)"
  by (cases c) (simp_all add: static_contentType.simps)

text \<open>
  Claim C10. The \<^verbatim>\<open>contentType\<close> getter of an instance returns the static
  \<^verbatim>\<open>contentType\<close> of the class that constructed it: the one the class declares, and
  \<^verbatim>\<open>application/xml\<close> (inherited from \<^verbatim>\<open>XmlFile\<close>) for a class that declares none; a
  \<^verbatim>\<open>FontTable\<close> reports the fontTable type. Two instances of one class report the same
  type, whatever their location and text.
\<close>

theorem contentType_of_class:
  "(\<forall>m. declared_contentType (constructor this) = Some m \<longrightarrow> contentType this = Some m) \<and>
   (declared_contentType (constructor this) = None \<longrightarrow> contentType this = Some FileMime_xml) \<and>
   (constructor this = FontTable_class \<longrightarrow> contentType this = Some FileMime_fontTable) \<and>
   (constructor this = constructor that \<longrightarrow> contentType this = contentType that)"
  unfolding contentType_def static_contentType_cases
  by (cases "constructor this") simp_all

theorem contentType_of_class_witness:
  "contentType
     \<lparr>constructor = FontTable_class, location = ''word/fontTable.xml'', xml = ''<w:fonts/>''\<rparr>
     = Some FileMime_fontTable \<and>
   contentType \<lparr>constructor = UnhandledXmlFile_class, location = ''word/x.xml'', xml = ''<x/>''\<rparr>
     = Some FileMime_xml \<and>
   contentType
     \<lparr>constructor = FontTable_class, location = ''word/fontTable.xml'', xml = ''<w:fonts/>''\<rparr>
     = contentType \<lparr>constructor = FontTable_class, location = ''other.xml'', xml = []\<rparr>"
  using contentType_of_class [of
      "\<lparr>constructor = FontTable_class, location = ''word/fontTable.xml'', xml = ''<w:fonts/>''\<rparr>"
      "\<lparr>constructor = FontTable_class, location = ''other.xml'', xml = []\<rparr>"]
    contentType_of_class [of
      "\<lparr>constructor = UnhandledXmlFile_class, location = ''word/x.xml'', xml = ''<x/>''\<rparr>"
      "\<lparr>constructor = UnhandledXmlFile_class, location = ''word/x.xml'', xml = ''<x/>''\<rparr>"]
  by auto

section \<open>Break: encoding and decoding\<close>

lemma or_null_admits:
  "admits vs v \<Longrightarrow> [] \<notin> set vs \<Longrightarrow>
     (case or_null v of None \<Rightarrow> Null | Some s \<Rightarrow> Value s) = absent_as_null v"
  by (cases v) auto

text \<open>
  Claim C1, as amended. For a well-typed \<^verbatim>\<open>Break\<close>, whatever \<^verbatim>\<open>QNS.w\<close> is,
  \<^verbatim>\<open>Break.fromNode\<close> of the element \<^verbatim>\<open>toNode\<close> produces is the node again with
  equal (no) children and equal props, except that a prop left out (\<^verbatim>\<open>undefined\<close>)
  comes back as \<^verbatim>\<open>null\<close>. When neither prop was left out, the node is reproduced
  exactly.
\<close>

theorem Break_roundtrip:
  "well_typed_Break b \<Longrightarrow>
     Break_fromNode w (Break_toNode w b) =
       b\<lparr>props := \<lparr>type = absent_as_null (type (props b)),
                    clear = absent_as_null (clear (props b))\<rparr>\<rparr> \<and>
     (type (props b) \<noteq> Undefined \<and> clear (props b) \<noteq> Undefined \<longrightarrow>
        Break_fromNode w (Break_toNode w b) = b)"
proof -
  assume wt: "well_typed_Break b"
  have t: "(case or_null (type (props b)) of None \<Rightarrow> Null | Some s \<Rightarrow> Value s)
      = absent_as_null (type (props b))"
    using wt by (intro or_null_admits [of BreakProps_type_values])
      (simp_all add: well_typed_Break_def BreakProps_type_values_def)
  have c: "(case or_null (clear (props b)) of None \<Rightarrow> Null | Some s \<Rightarrow> Value s)
      = absent_as_null (clear (props b))"
    using wt by (intro or_null_admits [of BreakProps_clear_values])
      (simp_all add: well_typed_Break_def BreakProps_clear_values_def)
  have ch: "children b = []" using wt by (simp add: well_typed_Break_def)
  have ft: "attribute_string (w @ ''type'') (Break_toNode w b) = absent_as_null (type (props b))"
    using t by (simp add: attribute_string_def Break_toNode_def attribute_if_exists_def
        split: option.splits)
  have fc: "attribute_string (w @ ''clear'') (Break_toNode w b) = absent_as_null (clear (props b))"
    using c by (simp add: attribute_string_def Break_toNode_def attribute_if_exists_def
        split: option.splits)
  have eq: "Break_fromNode w (Break_toNode w b) =
       b\<lparr>props := \<lparr>type = absent_as_null (type (props b)),
                    clear = absent_as_null (clear (props b))\<rparr>\<rparr>"
    using ch by (simp add: Break_fromNode_def ft fc)
  have ex: "type (props b) \<noteq> Undefined \<and> clear (props b) \<noteq> Undefined \<longrightarrow>
        Break_fromNode w (Break_toNode w b) = b"
  proof
    assume "type (props b) \<noteq> Undefined \<and> clear (props b) \<noteq> Undefined"
    then have "absent_as_null (type (props b)) = type (props b)"
      "absent_as_null (clear (props b)) = clear (props b)"
      by (cases "type (props b)"; cases "clear (props b)"; simp)+
    with eq show "Break_fromNode w (Break_toNode w b) = b" by simp
  qed
  show ?thesis using eq ex by simp
qed

text \<open>\<^verbatim>\<open>new Break({ type: 'page', clear: null })\<close> is reproduced exactly, here with the
  URI-qualified name prefix of the WordprocessingML namespace for \<^verbatim>\<open>QNS.w\<close>.\<close>

theorem Break_roundtrip_witness:
  "well_typed_Break
     (\<lparr>props = \<lparr>type = Value ''page'', clear = Null\<rparr>, children = []\<rparr> :: unit Break) \<and>
   Break_fromNode ''Q{http://schemas.openxmlformats.org/wordprocessingml/2006/main}''
     (Break_toNode ''Q{http://schemas.openxmlformats.org/wordprocessingml/2006/main}''
        (\<lparr>props = \<lparr>type = Value ''page'', clear = Null\<rparr>, children = []\<rparr> :: unit Break))
     = (\<lparr>props = \<lparr>type = Value ''page'', clear = Null\<rparr>, children = []\<rparr> :: unit Break)"
  using Break_roundtrip [of
      "\<lparr>props = \<lparr>type = Value ''page'', clear = Null\<rparr>, children = []\<rparr> :: unit Break"
      "''Q{http://schemas.openxmlformats.org/wordprocessingml/2006/main}''"]
  by (simp add: well_typed_Break_def BreakProps_type_values_def)

text \<open>
  \<^verbatim>\<open>new Break({})\<close> is not: it encodes to an element without attributes, which
  decodes to the props \<^verbatim>\<open>{ type: null, clear: null }\<close>.
\<close>

theorem Break_roundtrip_counterexample:
  "well_typed_Break
     (\<lparr>props = \<lparr>type = Undefined, clear = Undefined\<rparr>, children = []\<rparr> :: unit Break) \<and>
   attributes
     (Break_toNode ''Q{http://schemas.openxmlformats.org/wordprocessingml/2006/main}''
        (\<lparr>props = \<lparr>type = Undefined, clear = Undefined\<rparr>, children = []\<rparr> :: unit Break))
     = [] \<and>
   Break_fromNode ''Q{http://schemas.openxmlformats.org/wordprocessingml/2006/main}''
     (Break_toNode ''Q{http://schemas.openxmlformats.org/wordprocessingml/2006/main}''
        (\<lparr>props = \<lparr>type = Undefined, clear = Undefined\<rparr>, children = []\<rparr> :: unit Break))
     = (\<lparr>props = \<lparr>type = Null, clear = Null\<rparr>, children = []\<rparr> :: unit Break) \<and>
   Break_fromNode ''Q{http://schemas.openxmlformats.org/wordprocessingml/2006/main}''
     (Break_toNode ''Q{http://schemas.openxmlformats.org/wordprocessingml/2006/main}''
        (\<lparr>props = \<lparr>type = Undefined, clear = Undefined\<rparr>, children = []\<rparr> :: unit Break))
     \<noteq> (\<lparr>props = \<lparr>type = Undefined, clear = Undefined\<rparr>, children = []\<rparr> :: unit Break)"
  by (simp add: well_typed_Break_def Break_fromNode_def Break_toNode_def
      attribute_string_def attribute_if_exists_def)

section \<open>Flattening the rule results\<close>

lemma components_of_append: "components_of (xs @ ys) = components_of xs @ components_of ys"
  by (induction xs rule: components_of.induct) simp_all

lemma foldl_flatten:
  "(\<And>x flat. x \<in> set xs \<Longrightarrow> flatten flat x = flat @ components_of (spec_flatten x))
   \<Longrightarrow> foldl flatten acc xs = acc @ components_of (concat (map spec_flatten xs))"
  by (induction xs arbitrary: acc) (simp_all add: components_of_append)

lemma flatten_spec: "flatten flat r = flat @ components_of (spec_flatten r)"
proof (induction r arbitrary: flat)
  case (RArray xs)
  have "foldl flatten [] xs = [] @ components_of (concat (map spec_flatten xs))"
    by (rule foldl_flatten) (rule RArray.IH)
  then show ?case by simp
qed simp_all

text \<open>
  Claim C2, as amended. \<^verbatim>\<open>Docx#fromXml\<close> reduces a render result to the flat ordered
  sequence of its component nodes: \<^verbatim>\<open>null\<close> entries and plain text strings are
  dropped, nested arrays are spliced in place, and the components keep their order. That
  is, it yields the components of the sequence the specification describes.
\<close>

theorem fromXml_children_components:
  "fromXml_children ast = components_of (spec_flatten ast)"
proof -
  have "foldl flatten [] xs = components_of (concat (map spec_flatten xs))"
    for xs :: "'a RuleResult list"
    using foldl_flatten [of xs "[]"] by (simp add: flatten_spec)
  then show ?thesis
    by (cases ast) (simp_all add: fromXml_children_def)
qed

text \<open>
  The render result \<^verbatim>\<open>[null, "a", [["b"], null, "c"]]\<close> flattens to the empty sequence,
  not to \<^verbatim>\<open>["a", "b", "c"]\<close>.
\<close>

theorem fromXml_children_counterexample:
  "spec_flatten
     (RArray [RNull, RString ''a'', RArray [RArray [RString ''b''], RNull, RString ''c'']]
        :: unit RuleResult)
     = [Inl ''a'', Inl ''b'', Inl ''c''] \<and>
   fromXml_children
     (RArray [RNull, RString ''a'', RArray [RArray [RString ''b''], RNull, RString ''c'']]
        :: unit RuleResult)
     = [] \<and>
   map Inr (fromXml_children
     (RArray [RNull, RString ''a'', RArray [RArray [RString ''b''], RNull, RString ''c'']]
        :: unit RuleResult))
     \<noteq> [Inl ''a'', Inl ''b'', Inl ''c'']"
  by (simp add: fromXml_children_def)

section \<open>Adding a file and its related files to an archive\<close>

lemma fold_before_await:
  "fold before_await fs archive
     = archive @ List.map_filter written (filter (\<lambda>f. \<not> instanceof_XmlFile f) fs)"
proof (induction fs arbitrary: archive)
  case Nil
  then show ?case by simp
next
  case (Cons f fs)
  show ?case by (cases f) (simp_all add: Cons.IH addBinaryFile_def)
qed

lemma fold_after_await:
  "fold after_await fs archive = archive @ List.map_filter written (filter instanceof_XmlFile fs)"
proof (induction fs arbitrary: archive)
  case Nil
  then show ?case by simp
next
  case (Cons f fs)
  show ?case by (cases f) (simp_all add: Cons.IH addXmlFile_def split: sum.splits)
qed

lemma addToArchive_snd:
  "snd (addToArchive this archive)
     = archive @ (List.map_filter written (filter (\<lambda>f. \<not> instanceof_XmlFile f) (getRelated this)) @
                  List.map_filter written (filter instanceof_XmlFile (getRelated this)))"
  by (simp add: addToArchive_def Let_def fold_before_await fold_after_await)

lemma mset_written_split:
  "mset (List.map_filter written (filter (\<lambda>f. \<not> instanceof_XmlFile f) fs) @
         List.map_filter written (filter instanceof_XmlFile fs))
     = mset (List.map_filter written fs)"
proof (induction fs)
  case Nil
  then show ?case by simp
next
  case (Cons f fs)
  then show ?case by (cases f; cases "written f") simp_all
qed

lemma no_rejection:
  "(\<And>r. r \<in> set fs \<Longrightarrow> written r \<noteq> None) \<Longrightarrow> List.map_filter rejection fs = []"
proof (induction fs)
  case Nil
  then show ?case by simp
next
  case (Cons f fs)
  have "written f \<noteq> None" using Cons.prems by simp
  then have "rejection f = None" by (cases f) (auto split: sum.splits)
  then show ?case using Cons by simp
qed

lemma map_filter_all:
  "(\<And>r. r \<in> set fs \<Longrightarrow> g r \<noteq> None) \<Longrightarrow> map Some (List.map_filter g fs) = map g fs"
proof (induction fs)
  case Nil
  then show ?case by simp
next
  case (Cons a fs)
  then obtain y where "g a = Some y" by fastforce
  with Cons show ?case by simp
qed

lemma entries_twice: "entries ((archive @ ws) @ ws) = entries (archive @ ws)"
  by (rule ext) (simp add: entries_def map_add_def split: option.splits)

text \<open>
  Claim C8, as amended. \<^verbatim>\<open>addToArchive\<close> leaves the writes the archive had in place
  and adds, in some order, one write for each member of \<^verbatim>\<open>getRelated()\<close> whose
  \<^verbatim>\<open>toNode()\<close> returns, and nothing else; \<^verbatim>\<open>isEmpty()\<close> is not consulted. So when no
  related \<^verbatim>\<open>toNode()\<close> throws, it completes and has written every member of
  \<^verbatim>\<open>getRelated()\<close> exactly once, the empty ones included. A second call on the
  resulting archive leaves what the archive holds at every path unchanged.
\<close>

theorem addToArchive_writes:
  "take (length archive) (snd (addToArchive this archive)) = archive \<and>
   mset (drop (length archive) (snd (addToArchive this archive)))
     = mset (List.map_filter written (getRelated this)) \<and>
   ((\<forall>r \<in> set (getRelated this). written r \<noteq> None) \<longrightarrow>
      fst (addToArchive this archive) = [] \<and>
      map Some (List.map_filter written (getRelated this)) = map written (getRelated this)) \<and>
   entries (snd (addToArchive this (snd (addToArchive this archive))))
     = entries (snd (addToArchive this archive))"
proof -
  have r: "(\<forall>r \<in> set (getRelated this). written r \<noteq> None) \<longrightarrow>
      fst (addToArchive this archive) = [] \<and>
      map Some (List.map_filter written (getRelated this)) = map written (getRelated this)"
    by (simp add: addToArchive_def Let_def no_rejection map_filter_all)
  have e: "entries (snd (addToArchive this (snd (addToArchive this archive))))
     = entries (snd (addToArchive this archive))"
    by (simp only: addToArchive_snd entries_twice)
  show ?thesis
    using r e by (simp add: addToArchive_snd mset_written_split del: mset_append)
qed

text \<open>A document part with an empty comments part and an image: three writes.\<close>

theorem addToArchive_writes_witness:
  "fst (addToArchive
     (XmlFile_object ''word/document.xml'' (Inr (Element ''w:document'' [] [])) False
        [XmlFile_object ''word/comments.xml'' (Inr (Element ''w:comments'' [] [])) True [],
         BinaryFile_object ''word/media/1.png'' [137, 80] False])
     []) = [] \<and>
   mset (snd (addToArchive
     (XmlFile_object ''word/document.xml'' (Inr (Element ''w:document'' [] [])) False
        [XmlFile_object ''word/comments.xml'' (Inr (Element ''w:comments'' [] [])) True [],
         BinaryFile_object ''word/media/1.png'' [137, 80] False])
     []))
   = mset [(''word/document.xml'', XmlEntry (Element ''w:document'' [] [])),
           (''word/comments.xml'', XmlEntry (Element ''w:comments'' [] [])),
           (''word/media/1.png'', BinaryEntry [137, 80])]"
  using addToArchive_writes [of "[]"
      "XmlFile_object ''word/document.xml'' (Inr (Element ''w:document'' [] [])) False
        [XmlFile_object ''word/comments.xml'' (Inr (Element ''w:comments'' [] [])) True [],
         BinaryFile_object ''word/media/1.png'' [137, 80] False]"]
  by simp

text \<open>A file whose \<^verbatim>\<open>isEmpty()\<close> answers true is written all the same.\<close>

theorem addToArchive_counterexample:
  "file_isEmpty
     (XmlFile_object ''word/comments.xml'' (Inr (Element ''w:comments'' [] [])) True []) \<and>
   addToArchive
     (XmlFile_object ''word/comments.xml'' (Inr (Element ''w:comments'' [] [])) True []) []
     = ([], [(''word/comments.xml'', XmlEntry (Element ''w:comments'' [] []))])"
  by (simp add: addToArchive_def addXmlFile_def)

section \<open>The relationship graph and the document getter\<close>


lemma ensure_existing:
  "find (\<lambda>e. rel_type e = t) (meta r) = Some e \<Longrightarrow>
     ensureRelationship t factory (r, h) = (rel_target e, r, h)"
  by (simp add: ensureRelationship_def)

lemma ensure_missing:
  "find (\<lambda>e. rel_type e = t) (meta r) = None \<Longrightarrow>
     ensureRelationship t factory (r, h) =
       (fst (factory h), snd (add t (fst (factory h)) r), snd (factory h))"
  by (simp add: ensureRelationship_def split: prod.splits)


lemma document_again: "document (snd (document this)) = (fst (document this), snd (document this))"
  by (cases "officeDocument this") (auto simp: document_def split: prod.splits)







section \<open>Building from XML and from JSX\<close>

text \<open>
  Claim C4. \<^verbatim>\<open>fromXml\<close> on an instance without rules throws the error that says so,
  whatever the input, and the instance, its document body included, is as it was.
\<close>

theorem fromXml_without_rules:
  "renderer this = [] \<Longrightarrow>
     fromXml parse render xml_text properties this = (Inl (Error no_rules_message), this)"
  by (simp add: fromXml_def)

theorem fromXml_without_rules_witness:
  "renderer (fromNothing :: unit Docx) = [] \<and>
   fromXml (\<lambda>s. Inr s) (\<lambda>rules parsed doc p. Inr RNull) ''<p>hi</p>'' () (fromNothing :: unit Docx)
     = (Inl (Error no_rules_message), fromNothing)"
  using fromXml_without_rules [of "fromNothing :: unit Docx" "\<lambda>s. Inr s"
      "\<lambda>rules parsed doc p. Inr RNull" "''<p>hi</p>''" "()"]
  by (simp add: fromNothing_def Docx_new_def Let_def split: prod.splits)

lemma of_char_digit: "d < 10 \<Longrightarrow> (of_char (digit d) :: nat) - 48 = d"
proof -
  assume "d < 10"
  then have "d \<in> {0, 1, 2, 3, 4, 5, 6, 7, 8, 9}" by auto
  then show ?thesis by (auto simp: digit_def)
qed

lemma nat_of_string_of_nat: "nat_of_string (string_of_nat n) = n"
proof (induction n rule: string_of_nat.induct)
  case (1 n)
  show ?case
  proof (cases "n < 10")
    case True
    then show ?thesis
      by (subst string_of_nat.simps) (simp add: nat_of_string_def of_char_digit)
  next
    case False
    then have ih: "nat_of_string (string_of_nat (n div 10)) = n div 10" using 1 by simp
    have "nat_of_string (string_of_nat n)
        = 10 * nat_of_string (string_of_nat (n div 10)) + (of_char (digit (n mod 10)) - 48)"
      using False by (subst string_of_nat.simps) (simp add: nat_of_string_def)
    also have "\<dots> = 10 * (n div 10) + n mod 10"
      by (simp add: ih of_char_digit)
    finally show ?thesis by simp
  qed
qed

lemma string_of_nat_inj: "string_of_nat m = string_of_nat n \<Longrightarrow> m = n"
  by (metis nat_of_string_of_nat)

lemma root_count_message_inj: "root_count_message m = root_count_message n \<Longrightarrow> m = n"
  by (simp add: root_count_message_def string_of_nat_inj)

lemma document_fromNothing:
  "document (fromNothing :: 'rule Docx) =
     (OfficeDocument_at 0, (fromNothing :: 'rule Docx)\<lparr>officeDocument := Some (OfficeDocument_at 0)\<rparr>)"
  by (simp add: document_def fromNothing_def Docx_new_def Let_def hasType_def Relationships_new_def
      new_OfficeDocument_def add_def empty_heap_def ensureRelationship_def)

text \<open>
  Claim C3. \<^verbatim>\<open>Docx.fromJsx\<close> given exactly one root returns a document whose body is
  that root; given any other number of roots it returns no document but the error whose
  message prints the number found, and the messages for different numbers differ.
\<close>

theorem fromJsx_root_count:
  "(length roots = 1 \<longrightarrow>
      (\<exists>this :: 'rule Docx. fromJsx roots = Inr this \<and> body this = Some [hd roots])) \<and>
   (length roots \<noteq> 1 \<longrightarrow>
      (fromJsx roots :: error + 'rule Docx) = Inl (Error (root_count_message (length roots)))) \<and>
   (root_count_message m = root_count_message (length roots) \<longrightarrow> m = length roots)"
proof -
  have one: "length roots = 1 \<longrightarrow>
      (\<exists>this :: 'rule Docx. fromJsx roots = Inr this \<and> body this = Some [hd roots])"
  proof
    assume l: "length roots = 1"
    then have h: "roots ! 0 = hd roots" by (cases roots) simp_all
    let ?d = "(fromNothing :: 'rule Docx)\<lparr>officeDocument := Some (OfficeDocument_at 0)\<rparr>"
    let ?res = "?d\<lparr>heap := (heap ?d)\<lparr>store := (store (heap ?d))
                 (0 := OfficeDocument_set [hd roots] (store (heap ?d) 0))\<rparr>\<rparr>"
    have "fromJsx roots = Inr ?res"
      using l h by (simp add: fromJsx_def document_set_def document_fromNothing)
    moreover have "body ?res = Some [hd roots]"
      by (simp add: body_def document_def OfficeDocument_set_def)
    ultimately show "\<exists>this :: 'rule Docx. fromJsx roots = Inr this \<and> body this = Some [hd roots]"
      by blast
  qed
  show ?thesis
    using one by (auto simp: fromJsx_def dest: root_count_message_inj)
qed

text \<open>One root, no root, two roots.\<close>

theorem fromJsx_root_count_witness:
  "(\<exists>this :: unit Docx. fromJsx [example_root] = Inr this \<and> body this = Some [example_root]) \<and>
   (fromJsx [] :: error + unit Docx)
     = Inl (Error ''Found 0 root elements, but exactly 1 expected. This may be caused by invalid nesting that could not be repaired.'') \<and>
   (fromJsx [example_root, example_root] :: error + unit Docx)
     = Inl (Error ''Found 2 root elements, but exactly 1 expected. This may be caused by invalid nesting that could not be repaired.'')"
  using fromJsx_root_count [of "[example_root]" 1, where ?'rule = unit]
    fromJsx_root_count [of "[]" 0, where ?'rule = unit]
    fromJsx_root_count [of "[example_root, example_root]" 2, where ?'rule = unit]
  by (simp add: root_count_message_def string_of_nat.simps digit_def)

section \<open>Writing the archive\<close>

lemma addOverride_registers_path:
  "path \<in> fst ` set (overrides (addOverride prec path mime cts))"
  by (cases prec) (simp_all add: addOverride_def)




lemma addOverride_keeps_path:
  "path \<in> fst ` set (overrides cts) \<Longrightarrow>
     path \<in> fst ` set (overrides (addOverride prec path' mime' cts))"
  by (cases prec; cases "path' = path") (force simp: addOverride_def)+


lemma fold_addOverride_keeps_path:
  "path \<in> fst ` set (overrides cts) \<Longrightarrow>
     path \<in> fst ` set (overrides (fold (\<lambda>q. addOverride prec (L q) (M q)) ps cts))"
  by (induction ps arbitrary: cts) (simp_all add: addOverride_keeps_path)

lemma fold_addOverride_path:
  "p \<in> set ps \<Longrightarrow>
     L p \<in> fst ` set (overrides (fold (\<lambda>q. addOverride prec (L q) (M q)) ps cts))"
proof (induction ps arbitrary: cts)
  case Nil
  then show ?case by simp
next
  case (Cons a ps)
  show ?case
  proof (cases "p = a")
    case True
    have "L a \<in> fst ` set (overrides (addOverride prec (L a) (M a) cts))"
      by (rule addOverride_registers_path)
    then show ?thesis using True by (simp add: fold_addOverride_keeps_path)
  next
    case False
    then show ?thesis using Cons by simp
  qed
qed


lemma collect_overrides_path:
  "p \<in> set related \<Longrightarrow> \<not> instanceof_Relationships p \<Longrightarrow>
     part_location p \<in> fst ` set (overrides (collect_overrides prec related cts))"
  unfolding collect_overrides_def by (rule fold_addOverride_path) simp


lemma add_part_entry: "add_part p archive = archive @ [part_entry p]"
  by (cases p) (simp_all add: addXmlFile_def addBinaryFile_def)

lemma fold_add_part: "fold add_part ps archive = archive @ map part_entry ps"
  by (induction ps arbitrary: archive) (simp_all add: add_part_entry)

lemma document_twice:
  "document this = (doc, this1) \<Longrightarrow> document this1 = (doc, this1)"
  using document_again [of this] by simp

lemma toArchive_no_document:
  "document this = (Other_file p, this1) \<Longrightarrow> toArchive prec this = Inl TypeError"
  by (simp add: toArchive_def document_twice)

lemma toArchive_document:
  assumes "document this = (OfficeDocument_at a, this1)"
  shows "toArchive prec this =
     (let doc = store (heap this1) a;
          walked = fold walk (document_children doc)
                     (document_styles doc, document_relationships doc);
          this2 = this1\<lparr>heap := (heap this1)\<lparr>store := (store (heap this1))
                    (a := doc\<lparr>document_styles := fst walked,
                              document_relationships := snd walked\<rparr>)\<rparr>\<rparr>;
          archive = Relationships_toArchive (heap this2) (relationships this2) [];
          this3 = this2\<lparr>contentTypes :=
                    collect_overrides prec
                      (Relationships_getRelated (heap this2) (relationships this2))
                      (contentTypes this2)\<rparr>
      in Inr (ContentTypes_toArchive (contentTypes this3) archive, this3))"
  by (simp add: toArchive_def assms document_twice [OF assms] Let_def)

lemma toArchive_Inr:
  assumes "toArchive prec this = Inr (archive, this')"
  shows "\<exists>cts. contentTypes this' =
            collect_overrides prec (Relationships_getRelated (heap this') (relationships this')) cts \<and>
         archive = map part_entry (Relationships_getRelated (heap this') (relationships this')) @
           [part_entry (ContentTypes_part (contentTypes_location (contentTypes this'))
              (overrides (contentTypes this')))]"
proof (cases "document this")
  case (Pair doc this1)
  show ?thesis
  proof (cases doc)
    case (Other_file p)
    with Pair assms show ?thesis by (simp add: toArchive_no_document)
  next
    case (OfficeDocument_at a)
    with Pair have "document this = (OfficeDocument_at a, this1)" by simp
    from toArchive_document [OF this] assms show ?thesis
      by (auto simp: Let_def Relationships_toArchive_def fold_add_part
          ContentTypes_toArchive_def add_part_entry)
  qed
qed




section \<open>The walk comes before the archive\<close>

lemma fold_walk_preorder:
  "(\<And>c sr. c \<in> set cs \<Longrightarrow> walk c sr = fold visit (preorder c) sr) \<Longrightarrow>
     fold walk cs sr = fold visit (concat (map preorder cs)) sr"
  by (induction cs arbitrary: sr) simp_all

lemma walk_preorder: "walk c sr = fold visit (preorder c) sr"
proof (induction c arbitrary: sr)
  case (String_child s)
  show ?case by (simp add: visit_def)
next
  case (Component cl styleName cs)
  have v: "visit (Component cl styleName cs) sr =
      (case sr of (the_styles, the_relationships) \<Rightarrow>
          ((case or_null styleName of
              None \<Rightarrow> the_styles
            | Some n \<Rightarrow> ensureStyle n the_styles),
           (case cl of
              Image_class b \<Rightarrow> Image_ensureRelationship b the_relationships
            | Component_class n \<Rightarrow> the_relationships)))"
    by (cases sr; cases cl) (simp_all add: visit_def split: option.splits)
  have "fold walk cs (visit (Component cl styleName cs) sr)
      = fold visit (concat (map preorder cs)) (visit (Component cl styleName cs) sr)"
    by (rule fold_walk_preorder) (rule Component.IH)
  then show ?case by (simp add: v)
qed

lemma visit_styles_mono: "set (style_names (fst sr)) \<subseteq> set (style_names (fst (visit c sr)))"
  by (auto simp: visit_def ensureStyle_def split: option.splits)

lemma visit_meta_mono: "set (meta (snd sr)) \<subseteq> set (meta (snd (visit c sr)))"
  by (auto simp: visit_def Image_ensureRelationship_def add_def split: option.splits)

lemma visit_locations:
  "styles_location (fst (visit c sr)) = styles_location (fst sr) \<and>
   rels_location (snd (visit c sr)) = rels_location (snd sr)"
  by (auto simp: visit_def ensureStyle_def Image_ensureRelationship_def add_def split: option.splits)

lemma fold_visit_mono:
  "set (style_names (fst sr)) \<subseteq> set (style_names (fst (fold visit cs sr))) \<and>
   set (meta (snd sr)) \<subseteq> set (meta (snd (fold visit cs sr)))"
proof (induction cs arbitrary: sr)
  case Nil
  show ?case by simp
next
  case (Cons a cs)
  show ?case
    using visit_styles_mono [of sr a] visit_meta_mono [of sr a] Cons [of "visit a sr"]
    by auto
qed

lemma fold_visit_locations:
  "styles_location (fst (fold visit cs sr)) = styles_location (fst sr) \<and>
   rels_location (snd (fold visit cs sr)) = rels_location (snd sr)"
  by (induction cs arbitrary: sr) (simp_all add: visit_locations)

lemma visit_style: "declared_style c = Some n \<Longrightarrow> n \<in> set (style_names (fst (visit c sr)))"
  by (simp add: visit_def ensureStyle_def)

lemma visit_image:
  "embedded_image c = Some b \<Longrightarrow>
     \<exists>e \<in> set (meta (snd (visit c sr))).
        rel_type e = RelationshipType_image \<and> rel_target e = BinaryFile_part b"
  by (auto simp: visit_def Image_ensureRelationship_def add_def list_ex_iff)

lemma fold_visit_style:
  "c \<in> set cs \<Longrightarrow> declared_style c = Some n \<Longrightarrow>
     n \<in> set (style_names (fst (fold visit cs sr)))"
proof (induction cs arbitrary: sr)
  case Nil
  then show ?case by simp
next
  case (Cons a cs)
  show ?case
  proof (cases "c = a")
    case True
    then have "n \<in> set (style_names (fst (visit a sr)))"
      using Cons.prems(2) by (simp add: visit_style)
    then show ?thesis using fold_visit_mono [of "visit a sr" cs] by auto
  next
    case False
    then have "c \<in> set cs" using Cons.prems(1) by simp
    then have "n \<in> set (style_names (fst (fold visit cs (visit a sr))))"
      using Cons.prems(2) by (rule Cons.IH)
    then show ?thesis by simp
  qed
qed

lemma fold_visit_image:
  "c \<in> set cs \<Longrightarrow> embedded_image c = Some b \<Longrightarrow>
     \<exists>e \<in> set (meta (snd (fold visit cs sr))).
        rel_type e = RelationshipType_image \<and> rel_target e = BinaryFile_part b"
proof (induction cs arbitrary: sr)
  case Nil
  then show ?case by simp
next
  case (Cons a cs)
  show ?case
  proof (cases "c = a")
    case True
    then obtain e where "e \<in> set (meta (snd (visit a sr)))"
      "rel_type e = RelationshipType_image \<and> rel_target e = BinaryFile_part b"
      using Cons.prems(2) visit_image [of a b sr] by blast
    then show ?thesis using fold_visit_mono [of "visit a sr" cs] by auto
  next
    case False
    then have "c \<in> set cs" using Cons.prems(1) by simp
    then have "\<exists>e \<in> set (meta (snd (fold visit cs (visit a sr)))).
        rel_type e = RelationshipType_image \<and> rel_target e = BinaryFile_part b"
      using Cons.prems(2) by (rule Cons.IH)
    then show ?thesis by simp
  qed
qed

lemma document_cached_in_graph:
  assumes "cached_in_graph this"
  shows "fst (document this) \<in> rel_target ` set (meta (relationships (snd (document this))))"
proof (cases "officeDocument this")
  case (Some doc)
  then show ?thesis using assms by (simp add: document_def cached_in_graph_def)
next
  case None
  show ?thesis
  proof (cases "find (\<lambda>e. rel_type e = RelationshipType_officeDocument) (meta (relationships this))")
    case N: None
    show ?thesis
      using None N by (simp add: document_def ensure_missing add_def)
  next
    case (Some e)
    then have "e \<in> set (meta (relationships this))"
      by (auto simp: find_Some_iff)
    then show ?thesis
      using None Some by (simp add: document_def ensure_existing)
  qed
qed

lemma related_of_target:
  "t \<in> rel_target ` set (meta r) \<Longrightarrow>
     set (target_getRelated h t) \<subseteq> set (Relationships_getRelated h r)"
  by (auto simp: Relationships_getRelated_def)

lemma toArchive_walks:
  assumes d: "document this = (OfficeDocument_at a, this1)"
  shows "\<exists>archive this'. toArchive prec this = Inr (archive, this') \<and>
     relationships this' = relationships this1 \<and>
     store (heap this') a =
       (store (heap this1) a)
         \<lparr>document_styles :=
            fst (fold visit (concat (map preorder (document_children (store (heap this1) a))))
                  (document_styles (store (heap this1) a),
                   document_relationships (store (heap this1) a))),
          document_relationships :=
            snd (fold visit (concat (map preorder (document_children (store (heap this1) a))))
                  (document_styles (store (heap this1) a),
                   document_relationships (store (heap this1) a)))\<rparr>"
proof -
  have w: "fold walk cs sr = fold visit (concat (map preorder cs)) sr" for cs sr
    by (rule fold_walk_preorder) (rule walk_preorder)
  show ?thesis
    by (simp add: toArchive_document [OF d] Let_def w)
qed

text \<open>
  Claim C7. Let the getter \<^verbatim>\<open>document\<close> return an office document, one that the
  relationship graph leads to (as it does for every instance the class's methods
  produce). Then \<^verbatim>\<open>toArchive\<close> completes. What its walk does to the style registry
  and the relationships of the document is what visiting the nodes of the document's
  children one after the other, in depth-first pre-order, does. The archive is written
  from the state the walk leaves: every style a node declares is in the style registry,
  which is in the archive; every image has its edge in the document's relationship
  index, which is in the archive, its binary part is in the archive, and its location has
  a content-type override in the registry that is in the archive. The precedence of the
  content-type registry plays no part.
\<close>

theorem toArchive_prepass_first:
  assumes "cached_in_graph this" and "fst (document this) = OfficeDocument_at a"
  shows "\<exists>archive this'. toArchive prec this = Inr (archive, this') \<and>
     (document_styles (store (heap this') a), document_relationships (store (heap this') a))
       = fold visit
           (concat (map preorder (document_children (store (heap (snd (document this))) a))))
           (document_styles (store (heap (snd (document this))) a),
            document_relationships (store (heap (snd (document this))) a)) \<and>
     (\<forall>c \<in> set (concat (map preorder (document_children (store (heap (snd (document this))) a)))).
        (\<forall>n. declared_style c = Some n \<longrightarrow>
           n \<in> set (style_names (document_styles (store (heap this') a)))) \<and>
        (\<forall>b. embedded_image c = Some b \<longrightarrow>
           (\<exists>e \<in> set (meta (document_relationships (store (heap this') a))).
              rel_type e = RelationshipType_image \<and> rel_target e = BinaryFile_part b) \<and>
           part_entry (BinaryFile_part b) \<in> set archive \<and>
           binary_location b \<in> fst ` set (overrides (contentTypes this')))) \<and>
     part_entry (Styles_part (styles_location (document_styles (store (heap this') a)))
        (style_names (document_styles (store (heap this') a)))) \<in> set archive \<and>
     part_entry (Relationships_index part_location (document_relationships (store (heap this') a)))
        \<in> set archive \<and>
     part_entry (ContentTypes_part (contentTypes_location (contentTypes this'))
        (overrides (contentTypes this'))) \<in> set archive"
proof -
  obtain this1 where d: "document this = (OfficeDocument_at a, this1)"
    using assms(2) by (cases "document this") simp
  let ?doc = "store (heap this1) a"
  let ?nodes = "concat (map preorder (document_children ?doc))"
  let ?walked = "fold visit ?nodes (document_styles ?doc, document_relationships ?doc)"
  from toArchive_walks [OF d] obtain archive this' where
    t: "toArchive prec this = Inr (archive, this')"
    and r: "relationships this' = relationships this1"
    and s: "store (heap this') a =
       ?doc\<lparr>document_styles := fst ?walked, document_relationships := snd ?walked\<rparr>"
    by blast
  let ?after = "store (heap this') a"
  let ?related = "Relationships_getRelated (heap this') (relationships this')"
  have sty: "document_styles ?after = fst ?walked"
    and rel: "document_relationships ?after = snd ?walked"
    by (simp_all add: s)
  from toArchive_Inr [OF t] obtain cts where
    c: "contentTypes this' = collect_overrides prec ?related cts"
    and ar: "archive = map part_entry ?related @
           [part_entry (ContentTypes_part (contentTypes_location (contentTypes this'))
              (overrides (contentTypes this')))]"
    by blast
  have "OfficeDocument_at a \<in> rel_target ` set (meta (relationships this1))"
    using document_cached_in_graph [OF assms(1)] d by simp
  then have sub: "set (OfficeDocument_getRelated ?after) \<subseteq> set ?related"
    using related_of_target [of "OfficeDocument_at a" "relationships this'" "heap this'"]
    by (simp add: r)
  have written: "part_entry p \<in> set archive" if "p \<in> set (OfficeDocument_getRelated ?after)" for p
    using that sub by (subst ar) auto
  have overridden: "part_location p \<in> fst ` set (overrides (contentTypes this'))"
    if "p \<in> set (OfficeDocument_getRelated ?after)" "\<not> instanceof_Relationships p" for p
  proof -
    have "p \<in> set ?related" using that(1) sub by blast
    then show ?thesis using that(2) by (subst c) (rule collect_overrides_path)
  qed
  have 1: "(document_styles ?after, document_relationships ?after) = ?walked"
    by (simp add: sty rel)
  have 2: "n \<in> set (style_names (document_styles ?after))"
    if "c \<in> set ?nodes" "declared_style c = Some n" for c n
    using that by (simp only: sty fold_visit_style)
  have 3: "\<exists>e \<in> set (meta (document_relationships ?after)).
              rel_type e = RelationshipType_image \<and> rel_target e = BinaryFile_part b"
    if "c \<in> set ?nodes" "embedded_image c = Some b" for c b
    using that by (simp only: rel fold_visit_image)
  have target: "BinaryFile_part b \<in> set (OfficeDocument_getRelated ?after)"
    if "c \<in> set ?nodes" "embedded_image c = Some b" for c b
    using 3 [OF that] by (force simp: OfficeDocument_getRelated_def)
  have 4: "part_entry (BinaryFile_part b) \<in> set archive \<and>
           binary_location b \<in> fst ` set (overrides (contentTypes this'))"
    if "c \<in> set ?nodes" "embedded_image c = Some b" for c b
    using written [OF target [OF that]] overridden [OF target [OF that]] by simp
  have 5: "part_entry (Styles_part (styles_location (document_styles ?after))
        (style_names (document_styles ?after))) \<in> set archive"
    by (rule written) (simp add: OfficeDocument_getRelated_def)
  have 6: "part_entry (Relationships_index part_location (document_relationships ?after))
        \<in> set archive"
    by (rule written) (simp add: OfficeDocument_getRelated_def)
  have 7: "part_entry (ContentTypes_part (contentTypes_location (contentTypes this'))
        (overrides (contentTypes this'))) \<in> set archive"
    by (subst ar) simp
  have this1: "snd (document this) = this1" by (simp add: d)
  show ?thesis
    unfolding this1
    using t 1 2 3 4 5 6 7 by blast
qed

section \<open>The cache stays within the graph\<close>

lemma cached_in_graph_Docx_new: "cached_in_graph (Docx_new cts rels rules h0)"
  by (simp add: cached_in_graph_def Docx_new_def Let_def split: prod.splits)

lemma cached_in_graph_document:
  "cached_in_graph this \<Longrightarrow> cached_in_graph (snd (document this))"
proof (cases "officeDocument this")
  case None
  assume "cached_in_graph this"
  then have "fst (document this) \<in> rel_target ` set (meta (relationships (snd (document this))))"
    by (rule document_cached_in_graph)
  moreover have "officeDocument (snd (document this)) = Some (fst (document this))"
    using None by (simp add: document_def split: prod.splits)
  ultimately show ?thesis by (simp add: cached_in_graph_def)
next
  case (Some doc)
  assume "cached_in_graph this"
  then show ?thesis using Some by (simp add: document_def)
qed

lemma cached_in_graph_document_set:
  "cached_in_graph this \<Longrightarrow> document_set root this = Inr this' \<Longrightarrow> cached_in_graph this'"
proof -
  assume c: "cached_in_graph this" and s: "document_set root this = Inr this'"
  obtain doc this1 where d: "document this = (doc, this1)" by (cases "document this")
  have c1: "cached_in_graph this1" using cached_in_graph_document [OF c] d by simp
  show ?thesis
  proof (cases doc)
    case (Other_file p)
    then show ?thesis using s d by (simp add: document_set_def)
  next
    case (OfficeDocument_at a)
    then show ?thesis using s d c1
      by (auto simp: document_set_def cached_in_graph_def split: option.splits)
  qed
qed

lemma cached_in_graph_fromJsx:
  "fromJsx roots = Inr this \<Longrightarrow> cached_in_graph this"
  by (auto simp: fromJsx_def fromNothing_def split: if_splits
      intro: cached_in_graph_document_set [OF cached_in_graph_Docx_new])

lemma cached_in_graph_fromXml:
  "cached_in_graph this \<Longrightarrow>
     cached_in_graph (snd (fromXml parse render xml_text properties this))"
proof -
  assume c: "cached_in_graph this"
  obtain doc this1 where d: "document this = (doc, this1)" by (cases "document this")
  have c1: "cached_in_graph this1" using cached_in_graph_document [OF c] d by simp
  show ?thesis
    using c c1 d
    by (auto simp: fromXml_def split: sum.splits dest: cached_in_graph_document_set [OF c1])
qed

lemma cached_in_graph_toArchive:
  "cached_in_graph this \<Longrightarrow> toArchive prec this = Inr (archive, this') \<Longrightarrow> cached_in_graph this'"
proof -
  assume c: "cached_in_graph this" and t: "toArchive prec this = Inr (archive, this')"
  obtain doc this1 where d: "document this = (doc, this1)" by (cases "document this")
  have c1: "cached_in_graph this1" using cached_in_graph_document [OF c] d by simp
  show ?thesis
  proof (cases doc)
    case (Other_file p)
    then show ?thesis using t d by (simp add: toArchive_no_document)
  next
    case (OfficeDocument_at a)
    then have "document this = (OfficeDocument_at a, this1)" using d by simp
    from toArchive_document [OF this] t c1 show ?thesis
      by (auto simp: Let_def cached_in_graph_def split: option.splits)
  qed
qed

section \<open>The example document, archived\<close>






text \<open>The style and the image of the example document reach the archive.\<close>

theorem toArchive_prepass_first_witness:
  "cached_in_graph example_docx \<and>
   fst (document example_docx) = OfficeDocument_at 0 \<and>
   (\<exists>archive this'. toArchive Later_stands example_docx = Inr (archive, this') \<and>
      ''Heading1'' \<in> set (style_names (document_styles (store (heap this') 0))) \<and>
      part_entry (Styles_part (styles_location (document_styles (store (heap this') 0)))
        (style_names (document_styles (store (heap this') 0)))) \<in> set archive \<and>
      part_entry (BinaryFile_part example_image) \<in> set archive \<and>
      binary_location example_image \<in> fst ` set (overrides (contentTypes this')))"
proof -
  let ?nodes = "concat (map preorder
      (document_children (store (heap (snd (document example_docx))) 0)))"
  have h1: "cached_in_graph example_docx" by code_simp
  have h2: "fst (document example_docx) = OfficeDocument_at 0" by code_simp
  have n1: "example_root \<in> set ?nodes" by code_simp
  have s1: "declared_style example_root = Some ''Heading1''" by code_simp
  have n2: "Component (Image_class example_image) Undefined [] \<in> set ?nodes" by code_simp
  have s2: "embedded_image (Component (Image_class example_image) Undefined []) = Some example_image"
    by simp
  from toArchive_prepass_first [OF h1 h2] obtain archive this' where
    t: "toArchive Later_stands example_docx = Inr (archive, this')"
    and w: "\<forall>c \<in> set ?nodes.
        (\<forall>n. declared_style c = Some n \<longrightarrow>
           n \<in> set (style_names (document_styles (store (heap this') 0)))) \<and>
        (\<forall>b. embedded_image c = Some b \<longrightarrow>
           (\<exists>e \<in> set (meta (document_relationships (store (heap this') 0))).
              rel_type e = RelationshipType_image \<and> rel_target e = BinaryFile_part b) \<and>
           part_entry (BinaryFile_part b) \<in> set archive \<and>
           binary_location b \<in> fst ` set (overrides (contentTypes this')))"
    and st: "part_entry (Styles_part (styles_location (document_styles (store (heap this') 0)))
        (style_names (document_styles (store (heap this') 0)))) \<in> set archive"
    by blast
  have "''Heading1'' \<in> set (style_names (document_styles (store (heap this') 0)))"
    using w n1 s1 by blast
  moreover have "part_entry (BinaryFile_part example_image) \<in> set archive \<and>
      binary_location example_image \<in> fst ` set (overrides (contentTypes this'))"
    using w n2 s2 by blast
  ultimately show ?thesis using h1 h2 t st by blast
qed

end
